theory Spec2Isabelle
  imports Complex_Main
begin

section \<open>JavaScript values\<close>

text \<open>
  A JavaScript number is a finite double or one of the three special values. Finite
  doubles are embedded in the reals: the server only floors, compares, stores and (for the
  backpack percentage) divides them, so every statement below that quantifies over all
  reals covers every double. Rounding and overflow of the one division are outside the model.
  A request body reaches the handlers through \<^verbatim>\<open>JSON.parse\<close>, which yields
  \<^verbatim>\<open>Infinity\<close> for a literal such as \<^verbatim>\<open>1e999\<close>.
\<close>

datatype jsnum = Fin real | PInf | NInf | NaN

datatype jsval =
    Undefined
  | Null
  | Bool bool
  | Num jsnum
  | Str string
  | Arr "jsval list"
  | Obj "(string \<times> jsval) list"

text \<open>\<^verbatim>\<open>typeof x === "number"\<close>, \<^verbatim>\<open>isFinite(x)\<close> on a number, and truthiness.\<close>

fun is_number :: "jsval \<Rightarrow> bool" where
  "is_number (Num _) = True"
| "is_number _ = False"

fun isFinite :: "jsnum \<Rightarrow> bool" where
  "isFinite (Fin _) = True"
| "isFinite _ = False"

fun finite_number :: "jsval \<Rightarrow> bool" where
  "finite_number (Num n) = isFinite n"
| "finite_number _ = False"

fun truthy_num :: "jsnum \<Rightarrow> bool" where
  "truthy_num (Fin r) = (r \<noteq> 0)"
| "truthy_num NaN = False"
| "truthy_num _ = True"

fun truthy :: "jsval \<Rightarrow> bool" where
  "truthy Undefined = False"
| "truthy Null = False"
| "truthy (Bool b) = b"
| "truthy (Num n) = truthy_num n"
| "truthy (Str s) = (s \<noteq> [])"
| "truthy (Arr _) = True"
| "truthy (Obj _) = True"

text \<open>\<^verbatim>\<open>typeof x === "object"\<close>: objects, arrays and \<^verbatim>\<open>null\<close>.\<close>

fun is_object :: "jsval \<Rightarrow> bool" where
  "is_object Null = True"
| "is_object (Arr _) = True"
| "is_object (Obj _) = True"
| "is_object _ = False"

text \<open>Property read \<^verbatim>\<open>o[k]\<close> for a name \<open>k\<close> that is not an array index.\<close>

fun js_get :: "jsval \<Rightarrow> string \<Rightarrow> jsval" where
  "js_get (Obj kvs) k = (case map_of kvs k of Some v \<Rightarrow> v | None \<Rightarrow> Undefined)"
| "js_get _ k = Undefined"

text \<open>The comparisons \<^verbatim>\<open>a >= b\<close> and \<^verbatim>\<open>a > b\<close> on numbers, and \<^verbatim>\<open>Math.floor\<close>.\<close>

fun num_ge :: "jsnum \<Rightarrow> jsnum \<Rightarrow> bool" where
  "num_ge NaN _ = False"
| "num_ge _ NaN = False"
| "num_ge PInf _ = True"
| "num_ge _ NInf = True"
| "num_ge NInf _ = False"
| "num_ge _ PInf = False"
| "num_ge (Fin a) (Fin b) = (b \<le> a)"

fun num_gt :: "jsnum \<Rightarrow> jsnum \<Rightarrow> bool" where
  "num_gt NaN _ = False"
| "num_gt _ NaN = False"
| "num_gt NInf _ = False"
| "num_gt _ PInf = False"
| "num_gt PInf _ = True"
| "num_gt _ NInf = True"
| "num_gt (Fin a) (Fin b) = (b < a)"

fun floor_num :: "jsnum \<Rightarrow> jsnum" where
  "floor_num (Fin r) = Fin (of_int \<lfloor>r\<rfloor>)"
| "floor_num n = n"

text \<open>A server clock reading or a cutoff, as a number.\<close>

definition sec :: "int \<Rightarrow> jsnum" where
  "sec n = Fin (of_int n)"

section \<open>Time-window resolver\<close>

text \<open>
  \<^verbatim>\<open>/^(\d+)([smhd])$/.exec(period)\<close>: one or more ASCII digits, taken greedily,
  then exactly one unit letter, then the end of the input. No unit letter is a digit, so the
  greedy run of digits is the only possible first group.
\<close>

definition is_digit :: "char \<Rightarrow> bool" where
  "is_digit c = (c \<in> set ''0123456789'')"

definition unit_letter :: "char \<Rightarrow> bool" where
  "unit_letter c = (c \<in> set ''smhd'')"

definition exec_period :: "string \<Rightarrow> (string \<times> char) option" where
  "exec_period p =
     (let ds = takeWhile is_digit p; rest = dropWhile is_digit p
      in case rest of
           [u] \<Rightarrow> if ds \<noteq> [] \<and> unit_letter u then Some (ds, u) else None
         | _ \<Rightarrow> None)"

text \<open>
  \<^verbatim>\<open>Number(m[1])\<close> on a string of decimal digits. The double it yields is the
  decimal value up to rounding; rounding is monotone and every product below
  \<open>2592000\<close> is exact, so \<^verbatim>\<open>Math.min(n * k, 86400 * 30)\<close> is the same
  number for the double and for the exact value.
\<close>

definition digit_val :: "char \<Rightarrow> int" where
  "digit_val c = int (of_char c) - 48"

definition Number_digits :: "string \<Rightarrow> int" where
  "Number_digits ds = foldl (\<lambda>a c. 10 * a + digit_val c) 0 ds"

text \<open>\<^verbatim>\<open>toSeconds(period)\<close>; \<open>None\<close> is an absent query parameter.\<close>

definition toSeconds :: "string option \<Rightarrow> int" where
  "toSeconds period =
     (case period of
        None \<Rightarrow> 86400
      | Some p \<Rightarrow>
          if p = [] then 86400
          else (case exec_period p of
                  None \<Rightarrow> 86400
                | Some (ds, unit) \<Rightarrow>
                    (let n = Number_digits ds
                     in if unit = CHR ''s'' then min n (86400 * 30)
                        else if unit = CHR ''m'' then min (n * 60) (86400 * 30)
                        else if unit = CHR ''h'' then min (n * 3600) (86400 * 30)
                        else if unit = CHR ''d'' then min (n * 86400) (86400 * 30)
                        else 86400)))"

text \<open>The specification's reading of a period: \<open><n><unit>\<close> and the seconds of a unit.\<close>

definition period_form :: "string \<Rightarrow> bool" where
  "period_form p = (p \<noteq> [] \<and> butlast p \<noteq> [] \<and> list_all is_digit (butlast p) \<and> unit_letter (last p))"

definition unit_seconds :: "char \<Rightarrow> int" where
  "unit_seconds u =
     (if u = CHR ''s'' then 1 else if u = CHR ''m'' then 60
      else if u = CHR ''h'' then 3600 else 86400)"

section \<open>Configuration, headers and the authorization middleware\<close>

text \<open>
  \<^verbatim>\<open>process.env.X || "default"\<close>: an unset or empty variable gives the default.
  \<open>USE_DB\<close> is true when the four MySQL variables are all set.
\<close>

record config =
  env_API_KEY :: "string option"
  env_CLIENT_KEY :: "string option"
  USE_DB :: bool

definition or_default :: "string option \<Rightarrow> string \<Rightarrow> string" where
  "or_default x d = (case x of None \<Rightarrow> d | Some s \<Rightarrow> if s = [] then d else s)"


definition CLIENT_KEY :: "config \<Rightarrow> string" where
  "CLIENT_KEY cfg = or_default (env_CLIENT_KEY cfg) ''replace-this-client-key''"

text \<open>The three headers the middleware reads; \<open>None\<close> is an absent header.\<close>

record headers =
  x_user_key :: "string option"
  x_client_key :: "string option"
  x_api_key :: "string option"

text \<open>A rejection \<^verbatim>\<open>res.status(code).json({ error: message })\<close>.\<close>

datatype reject = Reject nat string

text \<open>\<^verbatim>\<open>!s\<close> for a header or query value: absent or the empty string.\<close>

definition absent :: "string option \<Rightarrow> bool" where
  "absent x = (case x of None \<Rightarrow> True | Some s \<Rightarrow> s = [])"

text \<open>\<^verbatim>\<open>requireReadKey\<close> and \<^verbatim>\<open>requireWriteKey\<close>; \<open>Inr userKey\<close> is \<^verbatim>\<open>req.userKey = userKey; next()\<close>.\<close>

definition requireReadKey :: "config \<Rightarrow> headers \<Rightarrow> reject + string" where
  "requireReadKey cfg h =
     (case x_user_key h of
        None \<Rightarrow> Inl (Reject 400 ''x-user-key required'')
      | Some userKey \<Rightarrow>
          if userKey = [] then Inl (Reject 400 ''x-user-key required'')
          else if CLIENT_KEY cfg = [] \<or> CLIENT_KEY cfg = ''replace-this-client-key''
          then Inr userKey
          else if x_client_key h \<noteq> Some (CLIENT_KEY cfg) then Inl (Reject 401 ''unauthorized'')
          else Inr userKey)"


text \<open>
  The variant of \<^verbatim>\<open>requireReadKey\<close> at lines 211 to 226 of \<^verbatim>\<open>Index.js\<close>: the
  user key may also come from the query parameter \<^verbatim>\<open>user_key\<close>, the default of
  \<^verbatim>\<open>CLIENT_KEY\<close> is a fixed key, and the client key is always compared.
\<close>

definition CLIENT_KEY_v2 :: "config \<Rightarrow> string" where
  "CLIENT_KEY_v2 cfg = or_default (env_CLIENT_KEY cfg) ''Xjcxjzx3123Zccxvjfdsfd''"

definition requireReadKey_v2 :: "config \<Rightarrow> headers \<Rightarrow> string option \<Rightarrow> reject + string" where
  "requireReadKey_v2 cfg h query_user_key =
     (let userKey = (if absent (x_user_key h) then query_user_key else x_user_key h)
      in case userKey of
           None \<Rightarrow> Inl (Reject 400 ''x-user-key required'')
         | Some k \<Rightarrow>
             if k = [] then Inl (Reject 400 ''x-user-key required'')
             else if x_client_key h \<noteq> Some (CLIENT_KEY_v2 cfg)
             then Inl (Reject 401 ''unauthorized: invalid x-client-key'')
             else Inr k)"

section \<open>The in-memory store\<close>

text \<open>
  Strings are lists of code units below 256. The stores \<^verbatim>\<open>samples\<close>,
  \<^verbatim>\<open>memorySessions\<close>, \<^verbatim>\<open>publicIdToUserKey\<close> and \<^verbatim>\<open>controlCommands\<close> are
  plain objects used as dictionaries; they are modelled as maps from the key to the stored
  value, so a key is taken to name an own property of the dictionary.
  The library functions the server calls but does not define are parameters of the model:
  the SHA-1 digest in hexadecimal, \<^verbatim>\<open>Number\<close> on a string, and the decimal
  print of a player id inside a template string.
\<close>

record builtins =
  sha1hex :: "string \<Rightarrow> string"
  Number_of :: "string \<Rightarrow> jsnum"
  String_of :: "int \<Rightarrow> string"

datatype nectar_type = Comforting | Motivating | Satisfying | Refreshing | Invigorating

definition NECTAR_TYPES :: "nectar_type list" where
  "NECTAR_TYPES = [Comforting, Motivating, Satisfying, Refreshing, Invigorating]"

fun nectar_name :: "nectar_type \<Rightarrow> string" where
  "nectar_name Comforting = ''Comforting''"
| "nectar_name Motivating = ''Motivating''"
| "nectar_name Satisfying = ''Satisfying''"
| "nectar_name Refreshing = ''Refreshing''"
| "nectar_name Invigorating = ''Invigorating''"

text \<open>A stored point \<^verbatim>\<open>{ t, v }\<close>, and a stored backpack entry
  \<^verbatim>\<open>{ t, v, cap, pct }\<close> whose \<open>cap\<close> may be \<^verbatim>\<open>null\<close> and whose \<open>pct\<close> may be
  missing (\<open>None\<close>).\<close>

record sample =
  smp_t :: jsnum
  smp_v :: jsnum

record bp_entry =
  bp_t :: jsnum
  bp_v :: jsnum
  bp_cap :: "jsnum option"
  bp_pct :: "jsnum option"

record bucket =
  honey :: "sample list"
  pollen :: "sample list"
  backpack :: "bp_entry list"
  nectar :: "nectar_type \<Rightarrow> sample list"
  currentHoney :: jsnum
  lastCapacity :: jsnum
  username :: "string option"
  publicId :: string
  lastSeen :: jsnum

record session =
  ses_playerId :: int
  ses_username :: string
  ses_lastSeen :: jsnum
  ses_currentHoney :: jsnum
  ses_publicId :: "string option"

record mapping_entry =
  map_userKey :: string
  map_username :: "string option"

text \<open>A queued command \<^verbatim>\<open>{ ...c, at }\<close>: the posted value and its stamp.\<close>

record command =
  cmd_body :: jsval
  cmd_at :: int

record state =
  samples :: "string \<rightharpoonup> bucket"
  memorySessions :: "string \<rightharpoonup> (int \<rightharpoonup> session)"
  publicIdToUserKey :: "string \<rightharpoonup> mapping_entry"
  controlCommands :: "string \<rightharpoonup> command list"

definition createEmptyNectarBucket :: "nectar_type \<Rightarrow> sample list" where
  "createEmptyNectarBucket = (\<lambda>ty. [])"

text \<open>\<^verbatim>\<open>s || null\<close> on a string or null.\<close>

definition nonempty :: "string option \<Rightarrow> string option" where
  "nonempty x = (case x of None \<Rightarrow> None | Some s \<Rightarrow> if s = [] then None else Some s)"

definition cachePublicMapping :: "string option \<Rightarrow> string \<Rightarrow> string option \<Rightarrow> state \<Rightarrow> state" where
  "cachePublicMapping pid userKey uname st =
     (case pid of
        None \<Rightarrow> st
      | Some p \<Rightarrow>
          if p = [] \<or> userKey = [] then st
          else st\<lparr>publicIdToUserKey := (publicIdToUserKey st)
                 (p \<mapsto> \<lparr>map_userKey = userKey, map_username = nonempty uname\<rparr>)\<rparr>)"

definition getPublicId :: "builtins \<Rightarrow> string \<Rightarrow> string" where
  "getPublicId env userKey = take 12 (sha1hex env userKey)"

definition getSessionPublicId :: "builtins \<Rightarrow> string \<Rightarrow> int \<Rightarrow> string option" where
  "getSessionPublicId env userKey playerId =
     (if userKey = [] \<or> playerId = 0 then None
      else Some (take 16 (sha1hex env (userKey @ '':'' @ String_of env playerId))))"

definition new_bucket :: "builtins \<Rightarrow> string \<Rightarrow> bucket" where
  "new_bucket env userKey =
     \<lparr>honey = [], pollen = [], backpack = [], nectar = createEmptyNectarBucket,
      currentHoney = Fin 0, lastCapacity = Fin 0, username = None,
      publicId = getPublicId env userKey, lastSeen = Fin 0\<rparr>"

text \<open>
  \<^verbatim>\<open>getBucket(userKey)\<close> creates the bucket of an unseen key, fills a missing public
  id, caches the public mapping and returns the bucket. Every bucket has its
  \<^verbatim>\<open>nectar\<close> object, so the second test of the source never fires.
\<close>

definition getBucket :: "builtins \<Rightarrow> string \<Rightarrow> state \<Rightarrow> bucket \<times> state" where
  "getBucket env userKey st =
     (let b0 = (case samples st userKey of None \<Rightarrow> new_bucket env userKey | Some b \<Rightarrow> b);
          b1 = (if publicId b0 = [] then b0\<lparr>publicId := getPublicId env userKey\<rparr> else b0);
          st1 = st\<lparr>samples := (samples st)(userKey \<mapsto> b1)\<rparr>
      in (b1, cachePublicMapping (Some (publicId b1)) userKey (username b1) st1))"

text \<open>\<^verbatim>\<open>clampPercent\<close>, and \<^verbatim>\<open>(v / cap) * 100\<close> where it is evaluated: under
  the guard \<^verbatim>\<open>cap > 0\<close>.\<close>

fun clampPercent :: "jsnum \<Rightarrow> jsnum" where
  "clampPercent (Fin r) = Fin (max 0 (min 100 r))"
| "clampPercent _ = Fin 0"

fun percent_of :: "jsnum \<Rightarrow> jsnum \<Rightarrow> jsnum" where
  "percent_of (Fin a) (Fin c) = Fin (a / c * 100)"
| "percent_of (Fin a) PInf = Fin 0"
| "percent_of PInf (Fin c) = PInf"
| "percent_of NInf (Fin c) = NInf"
| "percent_of _ _ = NaN"

text \<open>\<^verbatim>\<open>x || 0\<close> on a number.\<close>

definition or_zero :: "jsnum \<Rightarrow> jsnum" where
  "or_zero n = (if truthy_num n then n else Fin 0)"

text \<open>A returned backpack point \<^verbatim>\<open>{ t, v, pct }\<close>.\<close>

record bp_point =
  pt_t :: jsnum
  pt_v :: jsnum
  pt_pct :: jsnum

definition shapeEntry :: "bp_entry \<Rightarrow> bp_point" where
  "shapeEntry e =
     \<lparr>pt_t = bp_t e, pt_v = bp_v e,
      pt_pct = (case bp_pct e of
                  Some p \<Rightarrow> clampPercent p
                | None \<Rightarrow>
                    (case bp_cap e of
                       Some c \<Rightarrow> if truthy_num c \<and> num_gt c (Fin 0)
                                 then clampPercent (percent_of (bp_v e) c) else Fin 0
                     | None \<Rightarrow> Fin 0))\<rparr>"

definition shapeBackpackEntries :: "bp_entry list \<Rightarrow> bp_point list" where
  "shapeBackpackEntries entries = map shapeEntry entries"

text \<open>\<^verbatim>\<open>xs.filter((p) => p.t >= cutoff)\<close> for the two kinds of stored entries.\<close>

definition since :: "int \<Rightarrow> sample list \<Rightarrow> sample list" where
  "since cutoff xs = filter (\<lambda>p. num_ge (smp_t p) (sec cutoff)) xs"

definition bp_since :: "int \<Rightarrow> bp_entry list \<Rightarrow> bp_entry list" where
  "bp_since cutoff xs = filter (\<lambda>p. num_ge (bp_t p) (sec cutoff)) xs"

text \<open>The answer of a stats read.\<close>

record stats =
  out_honey :: "sample list"
  out_pollen :: "sample list"
  out_backpack :: "bp_point list"
  out_nectar :: "nectar_type \<Rightarrow> sample list"
  out_currentHoney :: jsnum
  out_username :: string
  out_id :: string

definition name_or_Player :: "string option \<Rightarrow> string" where
  "name_or_Player x = (case nonempty x of None \<Rightarrow> ''Player'' | Some s \<Rightarrow> s)"

definition collectMemoryStats :: "builtins \<Rightarrow> string \<Rightarrow> int \<Rightarrow> state \<Rightarrow> stats \<times> state" where
  "collectMemoryStats env userKey cutoff st =
     (let (b, st1) = getBucket env userKey st;
          st2 = cachePublicMapping (Some (publicId b)) userKey (username b) st1
      in (\<lparr>out_honey = since cutoff (honey b),
           out_pollen = since cutoff (pollen b),
           out_backpack = shapeBackpackEntries (bp_since cutoff (backpack b)),
           out_nectar = (\<lambda>ty. since cutoff (nectar b ty)),
           out_currentHoney = or_zero (currentHoney b),
           out_username = name_or_Player (username b),
           out_id = publicId b\<rparr>, st2))"

section \<open>Ingest\<close>

text \<open>The destructured request body; a missing field is \<open>Undefined\<close>.\<close>

record body =
  req_honey :: jsval
  req_pollen :: jsval
  req_backpack :: jsval
  req_backpackCapacity :: jsval
  req_nectar :: jsval
  req_at :: jsval
  req_currentHoney :: jsval
  req_username :: jsval
  req_playerId :: jsval

text \<open>\<^verbatim>\<open>String.prototype.trim\<close> on code units below 256.\<close>

definition is_space :: "char \<Rightarrow> bool" where
  "is_space c = (of_char c \<in> {9, 10, 11, 12, 13, 32, 160 :: nat})"

definition js_trim :: "string \<Rightarrow> string" where
  "js_trim s = rev (dropWhile is_space (rev (dropWhile is_space s)))"

definition sanitizeUsername :: "jsval \<Rightarrow> string option" where
  "sanitizeUsername name =
     (case name of Str s \<Rightarrow> nonempty (Some (take 32 (js_trim s))) | _ \<Rightarrow> None)"

text \<open>\<^verbatim>\<open>Math.max(0, Math.floor(x))\<close> on a finite number.\<close>

definition floor0 :: "real \<Rightarrow> int" where
  "floor0 r = max 0 \<lfloor>r\<rfloor>"

definition normalizePlayerId :: "builtins \<Rightarrow> jsval \<Rightarrow> int option" where
  "normalizePlayerId env x =
     (case x of
        Num n \<Rightarrow> (case n of Fin r \<Rightarrow> Some (floor0 r) | _ \<Rightarrow> None)
      | Str s \<Rightarrow>
          if js_trim s \<noteq> []
          then (case Number_of env (js_trim s) of Fin r \<Rightarrow> Some (floor0 r) | _ \<Rightarrow> None)
          else None
      | _ \<Rightarrow> None)"

text \<open>\<^verbatim>\<open>typeof at === "number" ? Math.floor(at) : nowSec()\<close>.\<close>

definition event_time :: "int \<Rightarrow> body \<Rightarrow> jsnum" where
  "event_time now bd = (case req_at bd of Num n \<Rightarrow> floor_num n | _ \<Rightarrow> sec now)"

definition hasNectar :: "jsval \<Rightarrow> bool" where
  "hasNectar nec =
     (truthy nec \<and> is_object nec \<and>
      list_ex (\<lambda>ty. finite_number (js_get nec (nectar_name ty))) NECTAR_TYPES)"

text \<open>The guard of the handler: none of the five fields counts as a metric.\<close>

definition no_metrics :: "body \<Rightarrow> bool" where
  "no_metrics bd =
     (\<not> is_number (req_honey bd) \<and> \<not> is_number (req_pollen bd) \<and>
      \<not> is_number (req_backpack bd) \<and> \<not> is_number (req_currentHoney bd) \<and>
      \<not> hasNectar (req_nectar bd))"

text \<open>\<^verbatim>\<open>if (typeof x === "number" && isFinite(x)) xs.push({ t, v: x })\<close>.\<close>

definition push_point :: "jsnum \<Rightarrow> jsval \<Rightarrow> sample list \<Rightarrow> sample list" where
  "push_point t x xs =
     (case x of
        Num n \<Rightarrow> if isFinite n then xs @ [\<lparr>smp_t = t, smp_v = n\<rparr>] else xs
      | _ \<Rightarrow> xs)"

text \<open>The backpack block of \<^verbatim>\<open>writeMemory\<close>, lines 1229 to 1244.\<close>

definition write_backpack :: "jsnum \<Rightarrow> jsval \<Rightarrow> jsval \<Rightarrow> bucket \<Rightarrow> bucket" where
  "write_backpack t bp cap b =
     (case bp of
        Num w \<Rightarrow>
          if isFinite w then
            (let capValue0 = or_zero (lastCapacity b);
                 given = (case cap of Num c \<Rightarrow> isFinite c | _ \<Rightarrow> False);
                 capValue = (case cap of Num c \<Rightarrow> if isFinite c then c else capValue0
                             | _ \<Rightarrow> capValue0);
                 b1 = (if given then b\<lparr>lastCapacity := capValue\<rparr> else b);
                 entry = (if num_gt capValue (Fin 0)
                          then \<lparr>bp_t = t, bp_v = w, bp_cap = Some capValue,
                                bp_pct = Some (clampPercent (percent_of w capValue))\<rparr>
                          else \<lparr>bp_t = t, bp_v = w, bp_cap = None, bp_pct = Some (Fin 0)\<rparr>)
             in b1\<lparr>backpack := backpack b1 @ [entry]\<rparr>)
          else b
      | _ \<Rightarrow> b)"

definition write_capacity :: "jsval \<Rightarrow> bucket \<Rightarrow> bucket" where
  "write_capacity cap b =
     (case cap of Num c \<Rightarrow> if isFinite c then b\<lparr>lastCapacity := c\<rparr> else b | _ \<Rightarrow> b)"

definition write_currentHoney :: "jsval \<Rightarrow> bucket \<Rightarrow> bucket" where
  "write_currentHoney ch b = (case ch of Num n \<Rightarrow> b\<lparr>currentHoney := n\<rparr> | _ \<Rightarrow> b)"

definition write_nectar :: "jsnum \<Rightarrow> jsval \<Rightarrow> bucket \<Rightarrow> bucket" where
  "write_nectar t nec b =
     (if hasNectar nec
      then b\<lparr>nectar := (\<lambda>ty. push_point t (js_get nec (nectar_name ty)) (nectar b ty))\<rparr>
      else b)"

text \<open>The retention filter at the end of \<^verbatim>\<open>writeMemory\<close>, lines 1260 to 1266.\<close>

definition prune :: "int \<Rightarrow> bucket \<Rightarrow> bucket" where
  "prune now b =
     (let cutoff = now - 86400 * 30
      in b\<lparr>honey := since cutoff (honey b),
           pollen := since cutoff (pollen b),
           backpack := bp_since cutoff (backpack b),
           nectar := (\<lambda>ty. since cutoff (nectar b ty))\<rparr>)"

definition recordMemorySession ::
  "builtins \<Rightarrow> string \<Rightarrow> int \<Rightarrow> string \<Rightarrow> jsnum \<Rightarrow> jsnum \<Rightarrow> state \<Rightarrow> state" where
  "recordMemorySession env userKey playerId uname seen ch st =
     (if userKey = [] \<or> playerId = 0 then st
      else
        (let sessions = (case memorySessions st userKey of None \<Rightarrow> Map.empty | Some m \<Rightarrow> m);
             pid = getSessionPublicId env userKey playerId;
             entry = \<lparr>ses_playerId = playerId,
                      ses_username = (if uname = [] then ''Player'' else uname),
                      ses_lastSeen = seen, ses_currentHoney = or_zero ch, ses_publicId = pid\<rparr>;
             st1 = st\<lparr>memorySessions := (memorySessions st)(userKey \<mapsto> sessions(playerId \<mapsto> entry))\<rparr>
         in cachePublicMapping pid userKey (Some uname) st1))"

text \<open>
  \<^verbatim>\<open>writeMemory\<close>, lines 1216 to 1276. \<open>t\<close> is the event time the handler computed and
  \<open>now\<close> the clock read inside \<^verbatim>\<open>writeMemory\<close>. The bucket object is updated in
  place by the source; here it is read, updated and stored back.
\<close>

definition writeMemory :: "builtins \<Rightarrow> int \<Rightarrow> string \<Rightarrow> jsnum \<Rightarrow> body \<Rightarrow> state \<Rightarrow> state" where
  "writeMemory env now userKey t bd st =
     (let cleanedName = sanitizeUsername (req_username bd);
          numericPlayerId = normalizePlayerId env (req_playerId bd);
          (b0, st0) = getBucket env userKey st;
          b1 = b0\<lparr>lastSeen := t\<rparr>;
          b2 = (case cleanedName of Some n \<Rightarrow> b1\<lparr>username := Some n\<rparr> | None \<Rightarrow> b1);
          st1 = cachePublicMapping (Some (publicId b2)) userKey (username b2) st0;
          b3 = b2\<lparr>honey := push_point t (req_honey bd) (honey b2)\<rparr>;
          b4 = b3\<lparr>pollen := push_point t (req_pollen bd) (pollen b3)\<rparr>;
          b5 = write_backpack t (req_backpack bd) (req_backpackCapacity bd) b4;
          b6 = write_capacity (req_backpackCapacity bd) b5;
          b7 = write_currentHoney (req_currentHoney bd) b6;
          sessionHoney = (case req_currentHoney bd of Num n \<Rightarrow> n | _ \<Rightarrow> or_zero (currentHoney b7));
          b8 = write_nectar t (req_nectar bd) b7;
          b9 = prune now b8;
          st2 = st1\<lparr>samples := (samples st1)(userKey \<mapsto> b9)\<rparr>
      in case numericPlayerId of
           None \<Rightarrow> st2
         | Some pid \<Rightarrow>
             if pid = 0 then st2
             else recordMemorySession env userKey pid
                    (case nonempty (username b9) of
                       Some u \<Rightarrow> u
                     | None \<Rightarrow> (case cleanedName of Some c \<Rightarrow> c | None \<Rightarrow> ''Player''))
                    t sessionHoney st2)"

subsection \<open>The durable path\<close>

text \<open>
  MySQL is outside the repository. A statement the handler sends is recorded with its
  parameters, and whether \<^verbatim>\<open>dbPool.query\<close> throws on it is an arbitrary predicate
  \<open>throws\<close>: connectivity, constraint violations and a missing pool are all instances.
\<close>

datatype sql =
    EnsureUser string string
  | InsertSamples "(string \<times> string \<times> jsnum \<times> jsnum) list"
  | UpdateUser "jsnum option" jsnum "string option" string
  | UpsertSession "string option" string int "string option" jsnum "jsnum option"
  | SelectSamples string int
  | SelectUserInfo string

definition toLowerCase :: "string \<Rightarrow> string" where
  "toLowerCase s =
     map (\<lambda>c. if 65 \<le> (of_char c :: nat) \<and> (of_char c :: nat) \<le> 90
              then char_of ((of_char c :: nat) + 32) else c) s"

definition nectarMetricForType :: "nectar_type \<Rightarrow> string" where
  "nectarMetricForType ty = ''nectar_'' @ toLowerCase (nectar_name ty)"

definition insert_row :: "string \<Rightarrow> jsnum \<Rightarrow> jsval \<Rightarrow> (string \<times> jsnum \<times> jsnum) list" where
  "insert_row metric t x =
     (case x of Num n \<Rightarrow> if isFinite n then [(metric, t, n)] else [] | _ \<Rightarrow> [])"

definition inserts_of :: "jsnum \<Rightarrow> body \<Rightarrow> (string \<times> jsnum \<times> jsnum) list" where
  "inserts_of t bd =
     insert_row ''honey'' t (req_honey bd) @
     insert_row ''pollen'' t (req_pollen bd) @
     insert_row ''backpack'' t (req_backpack bd) @
     insert_row ''backpack_capacity'' t (req_backpackCapacity bd) @
     (if hasNectar (req_nectar bd)
      then concat (map (\<lambda>ty. insert_row (nectarMetricForType ty) t
                                 (js_get (req_nectar bd) (nectar_name ty))) NECTAR_TYPES)
      else [])"

text \<open>\<^verbatim>\<open>recordDbSession\<close> catches its own exception.\<close>

definition recordDbSession ::
  "builtins \<Rightarrow> (sql \<Rightarrow> bool) \<Rightarrow> string \<Rightarrow> int \<Rightarrow> string option \<Rightarrow> jsnum \<Rightarrow> jsnum option \<Rightarrow>
     state \<Rightarrow> state \<times> sql list" where
  "recordDbSession env throws userKey playerId uname seen ch st =
     (if userKey = [] \<or> playerId = 0 then (st, [])
      else
        (let pid = getSessionPublicId env userKey playerId;
             q = UpsertSession pid userKey playerId uname seen ch
         in if throws q then (st, [q])
            else (cachePublicMapping pid userKey uname st, [q])))"

text \<open>
  The body of the \<^verbatim>\<open>try\<close> block, lines 1285 to 1334: the first component tells whether
  an exception reached the \<^verbatim>\<open>catch\<close>, the last lists the statements sent.
\<close>

definition durable_ingest ::
  "builtins \<Rightarrow> (sql \<Rightarrow> bool) \<Rightarrow> string \<Rightarrow> jsnum \<Rightarrow> body \<Rightarrow> state \<Rightarrow> bool \<times> state \<times> sql list" where
  "durable_ingest env throws userKey t bd st =
     (let cleanedName = sanitizeUsername (req_username bd);
          numericPlayerId = normalizePlayerId env (req_playerId bd);
          honeyNow = (case req_currentHoney bd of Num n \<Rightarrow> Some n | _ \<Rightarrow> None);
          q1 = EnsureUser userKey (getPublicId env userKey)
      in if throws q1 then (True, st, [q1])
         else
           (let st1 = cachePublicMapping (Some (getPublicId env userKey)) userKey cleanedName st;
                inserts = inserts_of t bd;
                q2 = InsertSamples (map (\<lambda>(metric, tt, vv). (userKey, metric, tt, vv)) inserts);
                sent = (if inserts = [] then [q1] else [q1, q2])
            in if inserts \<noteq> [] \<and> throws q2 then (True, st1, sent)
               else
                 (let q3 = UpdateUser honeyNow t cleanedName userKey
                  in if throws q3 then (True, st1, sent @ [q3])
                     else
                       (case numericPlayerId of
                          None \<Rightarrow> (False, st1, sent @ [q3])
                        | Some pid \<Rightarrow>
                            if pid = 0 then (False, st1, sent @ [q3])
                            else
                              (let (st2, q4) = recordDbSession env throws userKey pid
                                                 cleanedName t honeyNow st1
                               in (False, st2, sent @ [q3] @ q4))))))"

subsection \<open>The handler\<close>

datatype mode = mysql | memory | memory_fallback

text \<open>A reply is an error \<^verbatim>\<open>res.status(code).json({ error })\<close> or the status 200 answer
  \<^verbatim>\<open>{ ok: true }\<close>, with or without a \<^verbatim>\<open>mode\<close> member.\<close>

datatype reply = Reply_error nat string | Reply_ok "mode option"


text \<open>
  The handler of \<^verbatim>\<open>POST /api/ingest\<close>, lines 1186 to 1341, entered with
  \<^verbatim>\<open>req.userKey\<close> set. \<open>now\<close> is the clock read for the event time and \<open>now'\<close> the
  clock read later inside \<^verbatim>\<open>writeMemory\<close>.
\<close>

definition ingest ::
  "builtins \<Rightarrow> config \<Rightarrow> (sql \<Rightarrow> bool) \<Rightarrow> int \<Rightarrow> int \<Rightarrow> string \<Rightarrow> body \<Rightarrow> state \<Rightarrow>
     reply \<times> state \<times> sql list" where
  "ingest env cfg throws now now' userKey bd st =
     (let t = event_time now bd
      in if no_metrics bd then (Reply_error 400 ''no metrics provided'', st, [])
         else if \<not> USE_DB cfg
         then (Reply_ok (Some memory), writeMemory env now' userKey t bd st, [])
         else
           (case durable_ingest env throws userKey t bd st of
              (threw, st1, sent) \<Rightarrow>
                if threw
                then (Reply_ok (Some memory_fallback), writeMemory env now' userKey t bd st1, sent)
                else (Reply_ok (Some mysql), st1, sent)))"


subsection \<open>The memory-only variant\<close>





section \<open>Stats\<close>

text \<open>
  What a stats read sees of the database: the rows of table \<^verbatim>\<open>samples\<close>
  (\<^verbatim>\<open>t INT\<close>, \<^verbatim>\<open>v DOUBLE\<close>) and, per user key, the columns of table
  \<^verbatim>\<open>users\<close> the read selects. A \<^verbatim>\<open>NULL\<close> is \<open>None\<close>.
\<close>

record sample_row =
  row_user_key :: string
  row_metric :: string
  row_t :: int
  row_v :: real

record user_info =
  info_current_honey :: "int option"
  info_username :: "string option"
  info_public_id :: "string option"

record db =
  samples_table :: "sample_row list"
  users_table :: "string \<rightharpoonup> user_info"

text \<open>\<^verbatim>\<open>SELECT metric, t, v FROM samples WHERE user_key = ? AND t >= ? ORDER BY t ASC\<close>;
  rows of equal \<open>t\<close> are kept in table order.\<close>

definition select_samples :: "db \<Rightarrow> string \<Rightarrow> int \<Rightarrow> sample_row list" where
  "select_samples d userKey cutoff =
     sort_key row_t (filter (\<lambda>r. row_user_key r = userKey \<and> cutoff \<le> row_t r) (samples_table d))"

definition point_of :: "sample_row \<Rightarrow> sample" where
  "point_of r = \<lparr>smp_t = sec (row_t r), smp_v = Fin (row_v r)\<rparr>"

definition startsWith :: "string \<Rightarrow> string \<Rightarrow> bool" where
  "startsWith s pre = (take (length pre) s = pre)"

definition nectarTypeFromMetric :: "string \<Rightarrow> nectar_type option" where
  "nectarTypeFromMetric metric =
     (if metric = [] \<or> \<not> startsWith metric ''nectar_'' then None
      else find (\<lambda>ty. toLowerCase (nectar_name ty) = drop (length ''nectar_'') metric) NECTAR_TYPES)"

text \<open>\<^verbatim>\<open>mergeBackpackSeries\<close>, lines 839 to 853: the map from a timestamp to the
  capacity stored last for it, and the loop over the backpack rows with \<^verbatim>\<open>lastCap\<close>.\<close>

definition capacity_map :: "sample list \<Rightarrow> (jsnum \<rightharpoonup> jsnum)" where
  "capacity_map entries = foldl (\<lambda>m e. m(smp_t e \<mapsto> smp_v e)) Map.empty entries"

fun merge_loop :: "(jsnum \<rightharpoonup> jsnum) \<Rightarrow> jsnum \<Rightarrow> sample list \<Rightarrow> bp_point list" where
  "merge_loop capacityByTime lastCap [] = []"
| "merge_loop capacityByTime lastCap (e # es) =
     (let cap = (case capacityByTime (smp_t e) of Some c \<Rightarrow> c | None \<Rightarrow> lastCap);
          positive = (truthy_num cap \<and> num_gt cap (Fin 0));
          lastCap' = (if positive then cap else lastCap);
          pct = (if positive then clampPercent (percent_of (smp_v e) cap) else Fin 0)
      in \<lparr>pt_t = smp_t e, pt_v = smp_v e, pt_pct = pct\<rparr> # merge_loop capacityByTime lastCap' es)"

definition mergeBackpackSeries :: "sample list \<Rightarrow> sample list \<Rightarrow> bp_point list" where
  "mergeBackpackSeries backpackEntries capacityEntries =
     merge_loop (capacity_map capacityEntries) (Fin 0) backpackEntries"

definition rows_of :: "string \<Rightarrow> sample_row list \<Rightarrow> sample list" where
  "rows_of metric rows = map point_of (filter (\<lambda>r. row_metric r = metric) rows)"

text \<open>\<^verbatim>\<open>collectDbStats\<close>, lines 878 to 922; \<open>None\<close> when a query throws.\<close>

definition collectDbStats ::
  "builtins \<Rightarrow> (sql \<Rightarrow> bool) \<Rightarrow> db \<Rightarrow> string \<Rightarrow> int \<Rightarrow> state \<Rightarrow> (stats \<times> state) option" where
  "collectDbStats env throws d userKey cutoff st =
     (if throws (SelectSamples userKey cutoff) then None
      else
        (let rows = select_samples d userKey cutoff;
             nectarRows = filter (\<lambda>r. row_metric r \<notin> {''honey'', ''pollen'', ''backpack'',
                                                        ''backpack_capacity''}) rows
         in if throws (SelectUserInfo userKey) then None
            else
              (let info = users_table d userKey;
                   uname = (case info of None \<Rightarrow> None | Some i \<Rightarrow> info_username i);
                   resolvedPublicId =
                     (case (case info of None \<Rightarrow> None | Some i \<Rightarrow> nonempty (info_public_id i)) of
                        Some p \<Rightarrow> p
                      | None \<Rightarrow> getPublicId env userKey);
                   honeyNow = (case info of
                                 None \<Rightarrow> 0
                               | Some i \<Rightarrow> (case info_current_honey i of None \<Rightarrow> 0 | Some n \<Rightarrow> n))
               in Some
                    (\<lparr>out_honey = rows_of ''honey'' rows,
                      out_pollen = rows_of ''pollen'' rows,
                      out_backpack = mergeBackpackSeries (rows_of ''backpack'' rows)
                                       (rows_of ''backpack_capacity'' rows),
                      out_nectar = (\<lambda>ty. map point_of
                                      (filter (\<lambda>r. nectarTypeFromMetric (row_metric r) = Some ty)
                                         nectarRows)),
                      out_currentHoney = sec honeyNow,
                      out_username = name_or_Player uname,
                      out_id = resolvedPublicId\<rparr>,
                     cachePublicMapping (Some resolvedPublicId) userKey uname st))))"

text \<open>\<^verbatim>\<open>sendStatsResponse\<close> as \<^verbatim>\<open>GET /api/stats\<close> calls it, without overrides.\<close>

definition sendStatsResponse ::
  "builtins \<Rightarrow> config \<Rightarrow> (sql \<Rightarrow> bool) \<Rightarrow> db \<Rightarrow> int \<Rightarrow> string \<Rightarrow> int \<Rightarrow> state \<Rightarrow> stats \<times> state" where
  "sendStatsResponse env cfg throws d now userKey periodSec st =
     (let cutoff = now - periodSec
      in if \<not> USE_DB cfg then collectMemoryStats env userKey cutoff st
         else (case collectDbStats env throws d userKey cutoff st of
                 Some r \<Rightarrow> r
               | None \<Rightarrow> collectMemoryStats env userKey cutoff st))"

text \<open>\<^verbatim>\<open>req.query.period || "24h"\<close>.\<close>

definition period_or_24h :: "string option \<Rightarrow> string option" where
  "period_or_24h period = Some (or_default period ''24h'')"

definition get_api_stats ::
  "builtins \<Rightarrow> config \<Rightarrow> (sql \<Rightarrow> bool) \<Rightarrow> db \<Rightarrow> int \<Rightarrow> headers \<Rightarrow> string option \<Rightarrow> state \<Rightarrow>
     (reject + stats) \<times> state" where
  "get_api_stats env cfg throws d now h period st =
     (case requireReadKey cfg h of
        Inl r \<Rightarrow> (Inl r, st)
      | Inr userKey \<Rightarrow>
          (let (data, st1) = sendStatsResponse env cfg throws d now userKey
                               (toSeconds (period_or_24h period)) st
           in (Inr data, st1)))"

section \<open>Control commands\<close>









definition initial_state :: state where
  "initial_state =
     \<lparr>samples = Map.empty, memorySessions = Map.empty, publicIdToUserKey = Map.empty,
      controlCommands = Map.empty\<rparr>"

section \<open>The variant with nectar and without capacity\<close>








section \<open>Leaderboard\<close>

text \<open>
  \<^verbatim>\<open>GET /api/leaderboard\<close> exists in the second server of \<^verbatim>\<open>Index.js\<close> only, lines
  298 to 348, and needs the database. \<^verbatim>\<open>parseInt\<close> reads optional white space, an
  optional sign, an optional \<^verbatim>\<open>0x\<close> and the longest run of digits; \<open>None\<close> is
  \<^verbatim>\<open>NaN\<close>.
\<close>

definition is_hex_digit :: "char \<Rightarrow> bool" where
  "is_hex_digit c = (c \<in> set ''0123456789abcdefABCDEF'')"

definition hex_val :: "char \<Rightarrow> int" where
  "hex_val c =
     (if is_digit c then digit_val c
      else if c \<in> set ''abcdef'' then int (of_char c) - 87
      else int (of_char c) - 55)"

definition parseInt :: "string option \<Rightarrow> int option" where
  "parseInt x =
     (case x of
        None \<Rightarrow> None
      | Some s \<Rightarrow>
          (let s1 = dropWhile is_space s;
               negative = (take 1 s1 = ''-'');
               s2 = (if take 1 s1 = ''-'' \<or> take 1 s1 = ''+'' then drop 1 s1 else s1);
               hex = (take 2 s2 = ''0x'' \<or> take 2 s2 = ''0X'');
               ds = (if hex then takeWhile is_hex_digit (drop 2 s2) else takeWhile is_digit s2);
               n = (if hex then foldl (\<lambda>a c. 16 * a + hex_val c) 0 ds else Number_digits ds)
           in if ds = [] then None else Some (if negative then - n else n)))"

text \<open>
  The rows of table \<^verbatim>\<open>users\<close> and \<^verbatim>\<open>samples\<close> the handler reads. MySQL refuses a
  negative \<^verbatim>\<open>LIMIT\<close>; rows of equal \<^verbatim>\<open>total_honey\<close> are kept in table order, and
  \<^verbatim>\<open>Array.prototype.sort\<close> is stable.
\<close>

record user_row_v2 =
  lb_user_key :: string
  lb_total_honey :: real
  lb_last_activity :: int

record db_v2 =
  users_v2 :: "user_row_v2 list"
  samples_v2 :: "sample_row list"

datatype sql_v2 = SelectLeaders int int | SelectDaily string int

record leader =
  ld_user_key :: string
  ld_total_honey :: real
  ld_daily_honey :: real
  ld_hourly_rate :: real
  ld_last_activity :: int

definition select_leaders :: "db_v2 \<Rightarrow> int \<Rightarrow> int \<Rightarrow> user_row_v2 list" where
  "select_leaders d cutoffT limit =
     take (nat limit)
       (sort_key (\<lambda>u. - lb_total_honey u) (filter (\<lambda>u. cutoffT < lb_last_activity u) (users_v2 d)))"

definition daily_honey :: "db_v2 \<Rightarrow> string \<Rightarrow> int \<Rightarrow> real" where
  "daily_honey d userKey since_t =
     sum_list (map row_v (filter (\<lambda>r. row_user_key r = userKey \<and> row_metric r = ''honey'' \<and>
                                      since_t \<le> row_t r) (samples_v2 d)))"

definition leader_of :: "db_v2 \<Rightarrow> int \<Rightarrow> user_row_v2 \<Rightarrow> leader" where
  "leader_of d now u =
     (let dailyHoney = daily_honey d (lb_user_key u) (now - 86400)
      in \<lparr>ld_user_key = lb_user_key u, ld_total_honey = lb_total_honey u,
          ld_daily_honey = dailyHoney, ld_hourly_rate = dailyHoney / 24,
          ld_last_activity = lb_last_activity u\<rparr>)"

definition leaderboard_limit :: "string option \<Rightarrow> int" where
  "leaderboard_limit limit_q =
     min (case parseInt limit_q of None \<Rightarrow> 25 | Some n \<Rightarrow> if n = 0 then 25 else n) 100"

definition leaderboard ::
  "config \<Rightarrow> (sql_v2 \<Rightarrow> bool) \<Rightarrow> db_v2 \<Rightarrow> int \<Rightarrow> string option \<Rightarrow> reject + leader list" where
  "leaderboard cfg throws d now limit_q =
     (if \<not> USE_DB cfg then Inl (Reject 501 ''Database required for leaderboard.'')
      else
        (let cutoffT = now - 86400 * 7;
             limit = leaderboard_limit limit_q
         in if throws (SelectLeaders cutoffT limit) \<or> limit < 0
            then Inl (Reject 500 ''Database error fetching leaderboard.'')
            else
              (let rows = select_leaders d cutoffT limit
               in if list_ex (\<lambda>u. throws (SelectDaily (lb_user_key u) (now - 86400))) rows
                  then Inl (Reject 500 ''Database error fetching leaderboard.'')
                  else Inr (sort_key (\<lambda>e. - ld_hourly_rate e) (map (leader_of d now) rows)))))"

section \<open>Vocabulary of the properties\<close>

text \<open>
  The metrics a claim ranges over, the body field that carries a value for a metric, and
  the series of a stats answer as pairs of timestamp and value.
\<close>

datatype metric = Honey | Pollen | Backpack | Nectar nectar_type

fun field_of :: "metric \<Rightarrow> body \<Rightarrow> jsval" where
  "field_of Honey bd = req_honey bd"
| "field_of Pollen bd = req_pollen bd"
| "field_of Backpack bd = req_backpack bd"
| "field_of (Nectar ty) bd = js_get (req_nectar bd) (nectar_name ty)"

fun series :: "metric \<Rightarrow> stats \<Rightarrow> (jsnum \<times> jsnum) list" where
  "series Honey s = map (\<lambda>p. (smp_t p, smp_v p)) (out_honey s)"
| "series Pollen s = map (\<lambda>p. (smp_t p, smp_v p)) (out_pollen s)"
| "series Backpack s = map (\<lambda>p. (pt_t p, pt_v p)) (out_backpack s)"
| "series (Nectar ty) s = map (\<lambda>p. (smp_t p, smp_v p)) (out_nectar s ty)"


text \<open>The specification's condition on the read secret: \<^verbatim>\<open>CLIENT_KEY\<close> is set, and
  set to something other than the placeholder.\<close>

definition secret_changed :: "config \<Rightarrow> bool" where
  "secret_changed cfg =
     (case env_CLIENT_KEY cfg of
        None \<Rightarrow> False
      | Some c \<Rightarrow> c \<noteq> [] \<and> c \<noteq> ''replace-this-client-key'')"



text \<open>
  The backpack percentage, in the vocabulary of the claim. Requests arrive in a list, each with
  its user key, the two clock readings and the body. The capacity known for a key after a list
  of arrivals is the one carried by the latest accepted request of that key that carried a
  finite one, and 0 when none did. The percentage of a value against a capacity is the
  clamped quotient when the capacity is positive and 0 otherwise. A returned point is written
  by the \<open>i\<close>-th arrival when that arrival is an accepted request of the key with this
  backpack value and event time, and the point's percentage is the one for the capacity known
  after the first \<open>i + 1\<close> arrivals. A store is tracked when this holds of every stored
  backpack entry and the stored capacity is the known one.
\<close>

type_synonym arrival = "string \<times> int \<times> int \<times> body"


definition carries_capacity :: "string \<Rightarrow> arrival \<Rightarrow> bool" where
  "carries_capacity k r =
     (case r of (k', now, now', bd) \<Rightarrow>
        k' = k \<and> \<not> no_metrics bd \<and> finite_number (req_backpackCapacity bd))"

definition capacity_in :: "arrival \<Rightarrow> jsnum" where
  "capacity_in r =
     (case r of (k', now, now', bd) \<Rightarrow>
        (case req_backpackCapacity bd of Num c \<Rightarrow> c | _ \<Rightarrow> Fin 0))"

definition known_capacity :: "string \<Rightarrow> arrival list \<Rightarrow> jsnum" where
  "known_capacity k rs =
     foldl (\<lambda>c r. if carries_capacity k r then capacity_in r else c) (Fin 0) rs"

definition percent_for :: "jsnum \<Rightarrow> jsnum \<Rightarrow> jsnum" where
  "percent_for w c = (if num_gt c (Fin 0) then clampPercent (percent_of w c) else Fin 0)"



text \<open>The bucket \<^verbatim>\<open>writeMemory\<close> leaves behind, as a function of the bucket
  \<^verbatim>\<open>getBucket\<close> handed to it.\<close>

definition written :: "int \<Rightarrow> jsnum \<Rightarrow> body \<Rightarrow> bucket \<Rightarrow> bucket" where
  "written now t bd b0 =
     (let b1 = b0\<lparr>lastSeen := t\<rparr>;
          b2 = (case sanitizeUsername (req_username bd) of
                  Some n \<Rightarrow> b1\<lparr>username := Some n\<rparr>
                | None \<Rightarrow> b1);
          b3 = b2\<lparr>honey := push_point t (req_honey bd) (honey b2)\<rparr>;
          b4 = b3\<lparr>pollen := push_point t (req_pollen bd) (pollen b3)\<rparr>;
          b5 = write_backpack t (req_backpack bd) (req_backpackCapacity bd) b4;
          b6 = write_capacity (req_backpackCapacity bd) b5;
          b7 = write_currentHoney (req_currentHoney bd) b6;
          b8 = write_nectar t (req_nectar bd) b7
      in prune now b8)"

text \<open>
  Concrete inputs for evaluating the model: library functions that stand in for the real
  ones, the body \<^verbatim>\<open>{}\<close>, a configuration without database and without keys, and a
  database that never throws.
\<close>

definition stub_builtins :: builtins where
  "stub_builtins = \<lparr>sha1hex = (\<lambda>s. s), Number_of = (\<lambda>s. NaN), String_of = (\<lambda>n. [])\<rparr>"

definition empty_body :: body where
  "empty_body =
     \<lparr>req_honey = Undefined, req_pollen = Undefined, req_backpack = Undefined,
      req_backpackCapacity = Undefined, req_nectar = Undefined, req_at = Undefined,
      req_currentHoney = Undefined, req_username = Undefined, req_playerId = Undefined\<rparr>"

definition memory_config :: config where
  "memory_config = \<lparr>env_API_KEY = None, env_CLIENT_KEY = None, USE_DB = False\<rparr>"

definition no_exception :: "sql \<Rightarrow> bool" where
  "no_exception q = False"

definition db_config :: config where
  "db_config = \<lparr>env_API_KEY = None, env_CLIENT_KEY = None, USE_DB = True\<rparr>"


definition read_headers :: headers where
  "read_headers = \<lparr>x_user_key = Some ''u'', x_client_key = None, x_api_key = None\<rparr>"


definition no_rows :: db where
  "no_rows = \<lparr>samples_table = [], users_table = Map.empty\<rparr>"

definition no_exception_v2 :: "sql_v2 \<Rightarrow> bool" where
  "no_exception_v2 q = False"

text \<open>Two users active at time 1000: A with the larger total and no honey in the last day,
  B with the smaller total and 24 honey in the last day.\<close>

definition two_users :: db_v2 where
  "two_users =
     \<lparr>users_v2 = [\<lparr>lb_user_key = ''A'', lb_total_honey = 100, lb_last_activity = 1000\<rparr>,
                  \<lparr>lb_user_key = ''B'', lb_total_honey = 50, lb_last_activity = 1000\<rparr>],
      samples_v2 = [\<lparr>row_user_key = ''B'', row_metric = ''honey'', row_t = 1000, row_v = 24\<rparr>]\<rparr>"

text \<open>The leaderboard entries of the two users at time 1000.\<close>

definition leader_A :: leader where
  "leader_A = \<lparr>ld_user_key = ''A'', ld_total_honey = 100, ld_daily_honey = 0, ld_hourly_rate = 0,
                ld_last_activity = 1000\<rparr>"

definition leader_B :: leader where
  "leader_B = \<lparr>ld_user_key = ''B'', ld_total_honey = 50, ld_daily_honey = 24, ld_hourly_rate = 1,
                ld_last_activity = 1000\<rparr>"






section \<open>The time-window resolver\<close>

lemma unit_not_digit: "unit_letter u \<Longrightarrow> \<not> is_digit u"
  by (auto simp: unit_letter_def is_digit_def)

lemma exec_period_form:
  assumes "ds \<noteq> []" "list_all is_digit ds" "unit_letter u"
  shows "exec_period (ds @ [u]) = Some (ds, u)"
proof -
  have d: "\<forall>c\<in>set ds. is_digit c" using assms(2) by (simp add: list_all_iff)
  have nd: "\<not> is_digit u" using assms(3) by (rule unit_not_digit)
  have t: "takeWhile is_digit (ds @ [u]) = ds" using d nd by (simp add: takeWhile_append2)
  have r: "dropWhile is_digit (ds @ [u]) = [u]" using d nd by (simp add: dropWhile_append2)
  show ?thesis unfolding exec_period_def Let_def t r using assms by simp
qed

lemma exec_period_Some:
  assumes "exec_period p = Some (ds, u)"
  shows "p = ds @ [u] \<and> ds \<noteq> [] \<and> list_all is_digit ds \<and> unit_letter u"
proof -
  from assms have r: "dropWhile is_digit p = [u]" and ne: "takeWhile is_digit p \<noteq> []"
    and u: "unit_letter u" and ds: "ds = takeWhile is_digit p"
    by (auto simp: exec_period_def Let_def split: list.splits if_splits)
  have "p = takeWhile is_digit p @ dropWhile is_digit p" by simp
  with r ds have "p = ds @ [u]" by simp
  moreover have "list_all is_digit ds" unfolding ds list_all_iff by (auto dest: set_takeWhileD)
  ultimately show ?thesis using ne u ds by simp
qed

lemma period_form_iff: "period_form p \<longleftrightarrow> exec_period p \<noteq> None"
proof
  assume pf: "period_form p"
  then have "p = butlast p @ [last p]" by (simp add: period_form_def)
  moreover from pf have "exec_period (butlast p @ [last p]) = Some (butlast p, last p)"
    by (intro exec_period_form) (simp_all add: period_form_def)
  ultimately show "exec_period p \<noteq> None" by simp
next
  assume "exec_period p \<noteq> None"
  then obtain ds u where "exec_period p = Some (ds, u)" by auto
  from exec_period_Some[OF this] show "period_form p" by (auto simp: period_form_def)
qed

lemma switch_unit:
  assumes "unit_letter u"
  shows "(let n = Number_digits ds
          in if u = CHR ''s'' then min n (86400 * 30)
             else if u = CHR ''m'' then min (n * 60) (86400 * 30)
             else if u = CHR ''h'' then min (n * 3600) (86400 * 30)
             else if u = CHR ''d'' then min (n * 86400) (86400 * 30)
             else 86400) = min (Number_digits ds * unit_seconds u) 2592000"
  using assms by (auto simp: unit_letter_def unit_seconds_def Let_def)

lemma Number_digits_nonneg: "list_all is_digit ds \<Longrightarrow> 0 \<le> Number_digits ds"
proof -
  have "list_all is_digit ds \<Longrightarrow> 0 \<le> a \<Longrightarrow> 0 \<le> foldl (\<lambda>a c. 10 * a + digit_val c) a ds" for a
  proof (induction ds arbitrary: a)
    case Nil
    then show ?case by simp
  next
    case (Cons c cs)
    from Cons.prems have "is_digit c" by simp
    then have "0 \<le> digit_val c" by (auto simp: is_digit_def digit_val_def)
    with Cons show ?case by simp
  qed
  then show "list_all is_digit ds \<Longrightarrow> 0 \<le> Number_digits ds" by (simp add: Number_digits_def)
qed

lemma toSeconds_range: "0 \<le> toSeconds period \<and> toSeconds period \<le> 2592000"
proof (cases period)
  case None
  then show ?thesis by (simp add: toSeconds_def)
next
  case (Some p)
  show ?thesis
  proof (cases "exec_period p")
    case None
    with Some show ?thesis by (simp add: toSeconds_def)
  next
    case (Some a)
    obtain ds u where a: "a = (ds, u)" by (cases a)
    from exec_period_Some[of p ds u] Some a
    have f: "list_all is_digit ds" "unit_letter u" by simp_all
    have n: "0 \<le> Number_digits ds" using f(1) by (rule Number_digits_nonneg)
    have "0 \<le> unit_seconds u" by (simp add: unit_seconds_def)
    with n have "0 \<le> Number_digits ds * unit_seconds u" by simp
    then have "0 \<le> min (Number_digits ds * unit_seconds u) 2592000 \<and>
               min (Number_digits ds * unit_seconds u) 2592000 \<le> 2592000" by simp
    then show ?thesis
      using \<open>period = Some p\<close> Some a switch_unit[OF f(2), of ds]
      by (auto simp add: toSeconds_def)
  qed
qed

text \<open>
  C2. For a period made of one or more decimal digits \<open>ds\<close> followed by a unit letter
  \<open>u\<close> among s, m, h, d, \<open>toSeconds\<close> returns the minimum of the number written by the
  digits times the seconds of the unit and 2592000. For every other string, the empty one
  included, and for an absent period it returns 86400. \<open>toSeconds\<close> is a total function
  into the integers: no input makes it raise.
\<close>

theorem toSeconds_spec:
  "(ds \<noteq> [] \<and> list_all is_digit ds \<and> unit_letter u \<longrightarrow>
      toSeconds (Some (ds @ [u])) = min (Number_digits ds * unit_seconds u) 2592000)
   \<and> (\<not> period_form p \<longrightarrow> toSeconds (Some p) = 86400)
   \<and> toSeconds None = 86400"
proof (intro conjI impI)
  assume a: "ds \<noteq> [] \<and> list_all is_digit ds \<and> unit_letter u"
  then have e: "exec_period (ds @ [u]) = Some (ds, u)" by (simp add: exec_period_form)
  show "toSeconds (Some (ds @ [u])) = min (Number_digits ds * unit_seconds u) 2592000"
    using a switch_unit[of u ds] by (simp add: toSeconds_def e)
next
  assume "\<not> period_form p"
  then have "exec_period p = None" by (cases "exec_period p") (auto simp: period_form_iff)
  then show "toSeconds (Some p) = 86400" by (simp add: toSeconds_def)
next
  show "toSeconds None = 86400" by (simp add: toSeconds_def)
qed

theorem toSeconds_spec_witness:
  "toSeconds (Some ''90m'') = 5400 \<and> toSeconds (Some ''45d'') = 2592000 \<and>
   toSeconds (Some ''24x'') = 86400 \<and> toSeconds (Some []) = 86400 \<and> toSeconds None = 86400"
  using toSeconds_spec[of "''90''" "CHR ''m''" "''24x''"]
        toSeconds_spec[of "''45''" "CHR ''d''" "[]"]
  by (simp add: is_digit_def unit_letter_def period_form_def Number_digits_def digit_val_def
        unit_seconds_def)

section \<open>The store: what a write leaves and what a read returns\<close>

lemma js_get_not_obj: "\<not> (truthy nec \<and> is_object nec) \<Longrightarrow> js_get nec k = Undefined"
  by (cases nec) auto

lemma hasNectar_iff:
  "hasNectar nec \<longleftrightarrow> list_ex (\<lambda>ty. finite_number (js_get nec (nectar_name ty))) NECTAR_TYPES"
proof (cases "truthy nec \<and> is_object nec")
  case True
  then show ?thesis by (simp add: hasNectar_def)
next
  case False
  then have "\<And>k. js_get nec k = Undefined" by (rule js_get_not_obj)
  with False show ?thesis by (auto simp add: hasNectar_def list_ex_iff)
qed



lemma samples_cachePublicMapping [simp]:
  "samples (cachePublicMapping pid k u st) = samples st"
  by (simp add: cachePublicMapping_def split: option.splits)

lemma samples_recordMemorySession [simp]:
  "samples (recordMemorySession env k pid u seen ch st) = samples st"
  by (simp add: recordMemorySession_def Let_def)

lemma controlCommands_cachePublicMapping [simp]:
  "controlCommands (cachePublicMapping pid k u st) = controlCommands st"
  by (simp add: cachePublicMapping_def split: option.splits)


lemma samples_getBucket:
  "samples (snd (getBucket env k st)) = (samples st)(k \<mapsto> fst (getBucket env k st))"
  by (simp add: getBucket_def Let_def)

lemma samples_writeMemory:
  "samples (writeMemory env now k t bd st) =
     (samples st)(k \<mapsto> written now t bd (fst (getBucket env k st)))"
  unfolding writeMemory_def written_def Let_def
  by (simp add: samples_getBucket case_prod_beta split: option.splits)

lemma write_backpack_frame [simp]:
  "honey (write_backpack t bp cap b) = honey b"
  "pollen (write_backpack t bp cap b) = pollen b"
  "nectar (write_backpack t bp cap b) = nectar b"
  "currentHoney (write_backpack t bp cap b) = currentHoney b"
  "username (write_backpack t bp cap b) = username b"
  "publicId (write_backpack t bp cap b) = publicId b"
  "lastSeen (write_backpack t bp cap b) = lastSeen b"
  by (simp_all add: write_backpack_def Let_def split: jsval.splits)

lemma write_capacity_frame [simp]:
  "honey (write_capacity cap b) = honey b"
  "pollen (write_capacity cap b) = pollen b"
  "backpack (write_capacity cap b) = backpack b"
  "nectar (write_capacity cap b) = nectar b"
  "currentHoney (write_capacity cap b) = currentHoney b"
  "username (write_capacity cap b) = username b"
  "publicId (write_capacity cap b) = publicId b"
  "lastSeen (write_capacity cap b) = lastSeen b"
  by (simp_all add: write_capacity_def split: jsval.splits)

lemma write_currentHoney_frame [simp]:
  "honey (write_currentHoney ch b) = honey b"
  "pollen (write_currentHoney ch b) = pollen b"
  "backpack (write_currentHoney ch b) = backpack b"
  "nectar (write_currentHoney ch b) = nectar b"
  "lastCapacity (write_currentHoney ch b) = lastCapacity b"
  "username (write_currentHoney ch b) = username b"
  "publicId (write_currentHoney ch b) = publicId b"
  "lastSeen (write_currentHoney ch b) = lastSeen b"
  by (simp_all add: write_currentHoney_def split: jsval.splits)

lemma write_nectar_frame [simp]:
  "honey (write_nectar t nec b) = honey b"
  "pollen (write_nectar t nec b) = pollen b"
  "backpack (write_nectar t nec b) = backpack b"
  "currentHoney (write_nectar t nec b) = currentHoney b"
  "lastCapacity (write_nectar t nec b) = lastCapacity b"
  "username (write_nectar t nec b) = username b"
  "publicId (write_nectar t nec b) = publicId b"
  "lastSeen (write_nectar t nec b) = lastSeen b"
  by (simp_all add: write_nectar_def)

lemma prune_frame [simp]:
  "currentHoney (prune now b) = currentHoney b"
  "lastCapacity (prune now b) = lastCapacity b"
  "username (prune now b) = username b"
  "publicId (prune now b) = publicId b"
  "lastSeen (prune now b) = lastSeen b"
  "honey (prune now b) = since (now - 2592000) (honey b)"
  "pollen (prune now b) = since (now - 2592000) (pollen b)"
  "backpack (prune now b) = bp_since (now - 2592000) (backpack b)"
  "nectar (prune now b) ty = since (now - 2592000) (nectar b ty)"
  by (simp_all add: prune_def Let_def)

lemma written_honey:
  "honey (written now t bd b0) = since (now - 2592000) (push_point t (req_honey bd) (honey b0))"
  by (simp add: written_def Let_def split: option.splits)

lemma written_pollen:
  "pollen (written now t bd b0) = since (now - 2592000) (push_point t (req_pollen bd) (pollen b0))"
  by (simp add: written_def Let_def split: option.splits)

lemma written_nectar:
  "nectar (written now t bd b0) ty =
     since (now - 2592000)
       (if hasNectar (req_nectar bd)
        then push_point t (js_get (req_nectar bd) (nectar_name ty)) (nectar b0 ty)
        else nectar b0 ty)"
  by (simp add: written_def Let_def write_nectar_def split: option.splits)

lemma written_backpack:
  "backpack (written now t bd b0) =
     bp_since (now - 2592000)
       (backpack (write_backpack t (req_backpack bd) (req_backpackCapacity bd) b0))"
  by (simp add: written_def Let_def write_backpack_def split: option.splits jsval.splits)


lemma num_ge_sec [simp]: "num_ge (sec a) (sec b) \<longleftrightarrow> b \<le> a"
  by (simp add: sec_def)

lemma num_ge_mono: "num_ge x (sec c) \<Longrightarrow> c' \<le> c \<Longrightarrow> num_ge x (sec c')"
  by (cases x) (auto simp: sec_def)

lemma set_since: "set (since c xs) = {p \<in> set xs. num_ge (smp_t p) (sec c)}"
  by (auto simp: since_def)

lemma set_bp_since: "set (bp_since c xs) = {p \<in> set xs. num_ge (bp_t p) (sec c)}"
  by (auto simp: bp_since_def)

lemma since_append: "since c (xs @ ys) = since c xs @ since c ys"
  by (simp add: since_def)

lemma collect_fields:
  "out_honey (fst (collectMemoryStats env k c st)) = since c (honey (fst (getBucket env k st)))"
  "out_pollen (fst (collectMemoryStats env k c st)) = since c (pollen (fst (getBucket env k st)))"
  "out_backpack (fst (collectMemoryStats env k c st)) =
     shapeBackpackEntries (bp_since c (backpack (fst (getBucket env k st))))"
  "out_nectar (fst (collectMemoryStats env k c st)) ty = since c (nectar (fst (getBucket env k st)) ty)"
  by (simp_all add: collectMemoryStats_def Let_def case_prod_beta)

lemma series_memory_ge:
  "(tt, w) \<in> set (series m (fst (collectMemoryStats env k c st))) \<Longrightarrow> num_ge tt (sec c)"
  by (cases m) (auto simp: collect_fields set_since set_bp_since shapeBackpackEntries_def shapeEntry_def)

lemma samples_recordDbSession [simp]:
  "samples (fst (recordDbSession env throws k pid u seen ch st)) = samples st"
  by (simp add: recordDbSession_def Let_def)

lemma samples_durable [simp]:
  "samples (fst (snd (durable_ingest env throws k t bd st))) = samples st"
  by (simp add: durable_ingest_def Let_def case_prod_beta split: option.splits)

lemma getBucket_cong:
  "samples st1 = samples st \<Longrightarrow> fst (getBucket env k st1) = fst (getBucket env k st)"
  by (simp add: getBucket_def Let_def)

lemma ingest_cases:
  "ingest env cfg throws now now' k bd st =
     (if no_metrics bd then (Reply_error 400 ''no metrics provided'', st, [])
      else if \<not> USE_DB cfg
      then (Reply_ok (Some memory), writeMemory env now' k (event_time now bd) bd st, [])
      else if fst (durable_ingest env throws k (event_time now bd) bd st)
      then (Reply_ok (Some memory_fallback),
            writeMemory env now' k (event_time now bd) bd
              (fst (snd (durable_ingest env throws k (event_time now bd) bd st))),
            snd (snd (durable_ingest env throws k (event_time now bd) bd st)))
      else (Reply_ok (Some mysql),
            fst (snd (durable_ingest env throws k (event_time now bd) bd st)),
            snd (snd (durable_ingest env throws k (event_time now bd) bd st))))"
  by (simp add: ingest_def Let_def case_prod_beta)

lemma ingest_memory_samples:
  assumes "fst (ingest env cfg throws now now' k bd st) = Reply_ok (Some md)" "md \<noteq> mysql"
  shows "samples (fst (snd (ingest env cfg throws now now' k bd st))) =
           (samples st)(k \<mapsto> written now' (event_time now bd) bd (fst (getBucket env k st)))"
proof -
  have g: "fst (getBucket env k (fst (snd (durable_ingest env throws k (event_time now bd) bd st))))
             = fst (getBucket env k st)"
    by (rule getBucket_cong) simp
  show ?thesis
    using assms unfolding ingest_cases
    by (simp add: samples_writeMemory g split: if_splits)
qed

lemma getBucket_after:
  "samples st k = Some b \<Longrightarrow>
     honey (fst (getBucket env k st)) = honey b \<and> pollen (fst (getBucket env k st)) = pollen b \<and>
     backpack (fst (getBucket env k st)) = backpack b \<and> nectar (fst (getBucket env k st)) = nectar b"
  by (simp add: getBucket_def Let_def)

lemma field_nectar_has: "js_get nec (nectar_name ty) = Num (Fin w) \<Longrightarrow> hasNectar nec"
  by (cases ty) (auto simp: hasNectar_iff NECTAR_TYPES_def)

lemma write_backpack_pushed:
  "\<exists>e. backpack (write_backpack t (Num (Fin w)) cap b) = backpack b @ [e] \<and>
        bp_t e = t \<and> bp_v e = Fin w"
  by (simp add: write_backpack_def Let_def)

lemma in_series_written:
  assumes f: "field_of m bd = Num (Fin w)" and keep: "num_ge t (sec (now - 2592000))"
    and c: "num_ge t (sec c)" and s: "samples st k = Some (written now t bd b0)"
  shows "(t, Fin w) \<in> set (series m (fst (collectMemoryStats env k c st)))"
proof (cases m)
  case Honey
  have "\<lparr>smp_t = t, smp_v = Fin w\<rparr> \<in> set (out_honey (fst (collectMemoryStats env k c st)))"
    using f keep c Honey getBucket_after[OF s, of env]
    by (simp add: collect_fields written_honey set_since push_point_def)
  then show ?thesis unfolding Honey series.simps set_map by (rule rev_image_eqI) simp
next
  case Pollen
  have "\<lparr>smp_t = t, smp_v = Fin w\<rparr> \<in> set (out_pollen (fst (collectMemoryStats env k c st)))"
    using f keep c Pollen getBucket_after[OF s, of env]
    by (simp add: collect_fields written_pollen set_since push_point_def)
  then show ?thesis unfolding Pollen series.simps set_map by (rule rev_image_eqI) simp
next
  case (Nectar ty)
  have h: "hasNectar (req_nectar bd)" using f Nectar by (simp add: field_nectar_has)
  have "\<lparr>smp_t = t, smp_v = Fin w\<rparr> \<in> set (out_nectar (fst (collectMemoryStats env k c st)) ty)"
    using f keep c Nectar h getBucket_after[OF s, of env]
    by (simp add: collect_fields written_nectar set_since push_point_def)
  then show ?thesis unfolding Nectar series.simps set_map by (rule rev_image_eqI) simp
next
  case Backpack
  have "\<exists>e. backpack (write_backpack t (req_backpack bd) (req_backpackCapacity bd) b0) =
             backpack b0 @ [e] \<and> bp_t e = t \<and> bp_v e = Fin w"
    using f Backpack by (simp add: write_backpack_pushed)
  then obtain e where eq: "backpack (write_backpack t (req_backpack bd) (req_backpackCapacity bd) b0) =
             backpack b0 @ [e]" and e: "bp_t e = t" "bp_v e = Fin w"
    by blast
  from eq have "e \<in> set (backpack (write_backpack t (req_backpack bd) (req_backpackCapacity bd) b0))"
    by simp
  then have "e \<in> set (bp_since c (backpack (fst (getBucket env k st))))"
    using keep c e getBucket_after[OF s, of env] by (simp add: written_backpack set_bp_since)
  then have "shapeEntry e \<in> set (out_backpack (fst (collectMemoryStats env k c st)))"
    by (simp add: collect_fields shapeBackpackEntries_def)
  then show ?thesis unfolding Backpack series.simps set_map using e
    by (intro rev_image_eqI[of "shapeEntry e"]) (simp_all add: shapeEntry_def)
qed

section \<open>Round trip of a sample\<close>


lemma honey_body [simp]:
  "\<not> no_metrics (empty_body\<lparr>req_honey := Num (Fin w), req_at := a\<rparr>)"
  by (simp add: no_metrics_def empty_body_def)

text \<open>
  Through the two routes of a memory-only server: when the clock of the read is not before the
  clock of the write, a sample that lies inside the window of the read lies inside the retention
  window of the write, so the read returns it.
\<close>

lemma roundtrip_through_routes:
  assumes mem: "\<not> USE_DB cfg" and f: "field_of m bd = Num (Fin w)"
    and a: "req_at bd = Num (Fin (of_int t))"
    and clock: "now' \<le> now_r"
    and key: "requireReadKey cfg h = Inr k"
    and window: "now_r - toSeconds (period_or_24h period) \<le> t"
  shows "\<exists>data. fst (get_api_stats env cfg throws d now_r h period
                    (fst (snd (ingest env cfg throws' now now' k bd st)))) = Inr data \<and>
                (sec t, Fin w) \<in> set (series m data)"
proof -
  let ?st = "fst (snd (ingest env cfg throws' now now' k bd st))"
  let ?c = "now_r - toSeconds (period_or_24h period)"
  have n: "\<not> no_metrics bd"
  proof (cases m)
    case (Nectar ty)
    with f show ?thesis by (simp add: no_metrics_def field_nectar_has)
  qed (use f in \<open>auto simp: no_metrics_def\<close>)
  have r: "fst (ingest env cfg throws' now now' k bd st) = Reply_ok (Some memory)"
    using n mem by (simp add: ingest_cases)
  have et: "event_time now bd = sec t" using a by (simp add: event_time_def sec_def)
  have s: "samples ?st k = Some (written now' (sec t) bd (fst (getBucket env k st)))"
    using ingest_memory_samples[OF r] et by simp
  have keep: "num_ge (sec t) (sec (now' - 2592000))"
    using clock window toSeconds_range[of "period_or_24h period"] by simp
  have "(sec t, Fin w) \<in> set (series m (fst (collectMemoryStats env k ?c ?st)))"
    using window by (intro in_series_written[OF f keep _ s]) simp
  moreover have "fst (get_api_stats env cfg throws d now_r h period ?st) =
                   Inr (fst (collectMemoryStats env k ?c ?st))"
    using key mem by (simp add: get_api_stats_def sendStatsResponse_def Let_def case_prod_beta)
  ultimately show ?thesis by simp
qed




section \<open>Retention on read\<close>

lemma select_samples_ge: "r \<in> set (select_samples d k c) \<Longrightarrow> c \<le> row_t r"
  by (simp add: select_samples_def)

lemma rows_of_ge:
  "p \<in> set (rows_of metric (select_samples d k c)) \<Longrightarrow> num_ge (smp_t p) (sec c)"
  by (auto simp: rows_of_def point_of_def dest: select_samples_ge)

lemma merge_loop_times:
  "map (\<lambda>p. (pt_t p, pt_v p)) (merge_loop cm l es) = map (\<lambda>e. (smp_t e, smp_v e)) es"
  by (induction es arbitrary: l) (simp_all add: Let_def)

lemma series_db_ge:
  assumes "collectDbStats env throws d k c st = Some r" "(tt, w) \<in> set (series m (fst r))"
  shows "num_ge tt (sec c)"
proof -
  from assms(1) obtain data st1 where r: "r = (data, st1)" by (cases r)
  from assms(1) have
    h: "out_honey (fst r) = rows_of ''honey'' (select_samples d k c)" and
    p: "out_pollen (fst r) = rows_of ''pollen'' (select_samples d k c)" and
    b: "out_backpack (fst r) = mergeBackpackSeries (rows_of ''backpack'' (select_samples d k c))
                                 (rows_of ''backpack_capacity'' (select_samples d k c))" and
    n: "\<And>ty. set (out_nectar (fst r) ty) \<subseteq> point_of ` set (select_samples d k c)"
    by (auto simp: collectDbStats_def Let_def split: if_splits)
  show ?thesis
  proof (cases m)
    case Honey
    with assms(2) h show ?thesis by (auto dest: rows_of_ge)
  next
    case Pollen
    with assms(2) p show ?thesis by (auto dest: rows_of_ge)
  next
    case Backpack
    with assms(2) b have "(tt, w) \<in> set (map (\<lambda>e. (smp_t e, smp_v e))
                              (rows_of ''backpack'' (select_samples d k c)))"
      by (simp add: mergeBackpackSeries_def merge_loop_times)
    then show ?thesis by (auto dest: rows_of_ge)
  next
    case (Nectar ty)
    with assms(2) n[of ty] obtain r' where "r' \<in> set (select_samples d k c)" "tt = smp_t (point_of r')"
      by auto
    then show ?thesis by (auto simp: point_of_def dest: select_samples_ge)
  qed
qed

lemma series_send_ge:
  assumes "(tt, w) \<in> set (series m (fst (sendStatsResponse env cfg throws d now k periodSec st)))"
  shows "num_ge tt (sec (now - periodSec))"
proof (cases "USE_DB cfg \<and> collectDbStats env throws d k (now - periodSec) st \<noteq> None")
  case True
  then obtain r where r: "collectDbStats env throws d k (now - periodSec) st = Some r" by auto
  with True have "sendStatsResponse env cfg throws d now k periodSec st = r"
    by (simp add: sendStatsResponse_def Let_def)
  with assms show ?thesis using series_db_ge[OF r] by simp
next
  case False
  then have "sendStatsResponse env cfg throws d now k periodSec st =
               collectMemoryStats env k (now - periodSec) st"
    by (cases "collectDbStats env throws d k (now - periodSec) st")
       (auto simp: sendStatsResponse_def Let_def)
  with assms show ?thesis using series_memory_ge by simp
qed

text \<open>
  C3. Whatever the store and the database hold, whatever the period asked for, and in every
  mode (memory, database, database failing over to memory): a stats read answered at server
  time \<open>now\<close> returns no point whose timestamp is not at or after \<open>now - 2592000\<close>,
  in any series.
\<close>

theorem retention_on_read:
  assumes "fst (get_api_stats env cfg throws d now h period st) = Inr data"
    and "\<not> num_ge tt (sec (now - 2592000))"
  shows "(tt, w) \<notin> set (series m data)"
proof
  assume in_series: "(tt, w) \<in> set (series m data)"
  from assms(1) obtain k where k: "requireReadKey cfg h = Inr k"
    by (cases "requireReadKey cfg h") (auto simp: get_api_stats_def)
  let ?p = "toSeconds (period_or_24h period)"
  from assms(1) k have "data = fst (sendStatsResponse env cfg throws d now k ?p st)"
    by (simp add: get_api_stats_def case_prod_beta)
  with in_series have "num_ge tt (sec (now - ?p))" using series_send_ge by simp
  moreover have "now - 2592000 \<le> now - ?p" using toSeconds_range[of "period_or_24h period"] by simp
  ultimately have "num_ge tt (sec (now - 2592000))" by (rule num_ge_mono)
  with assms(2) show False by simp
qed



theorem retention_on_read_witness:
  "fst (get_api_stats stub_builtins memory_config no_exception no_rows 2692000 read_headers (Some ''30d'')
         (fst (snd (ingest stub_builtins memory_config no_exception 100 100 ''u''
            (empty_body\<lparr>req_honey := Num (Fin 5)\<rparr>) initial_state))))
     = Inr (fst (sendStatsResponse stub_builtins memory_config no_exception no_rows 2692000 ''u''
               (toSeconds (period_or_24h (Some ''30d'')))
               (fst (snd (ingest stub_builtins memory_config no_exception 100 100 ''u''
                  (empty_body\<lparr>req_honey := Num (Fin 5)\<rparr>) initial_state))))) \<and>
   \<not> num_ge (sec 100) (sec (2692000 - 2592000)) \<and>
   (sec 100, Fin 5) \<notin> set (series Honey
      (fst (sendStatsResponse stub_builtins memory_config no_exception no_rows 2692000 ''u''
               (toSeconds (period_or_24h (Some ''30d'')))
               (fst (snd (ingest stub_builtins memory_config no_exception 100 100 ''u''
                  (empty_body\<lparr>req_honey := Num (Fin 5)\<rparr>) initial_state))))))"
proof -
  let ?st = "fst (snd (ingest stub_builtins memory_config no_exception 100 100 ''u''
                  (empty_body\<lparr>req_honey := Num (Fin 5)\<rparr>) initial_state))"
  let ?data = "fst (sendStatsResponse stub_builtins memory_config no_exception no_rows 2692000 ''u''
               (toSeconds (period_or_24h (Some ''30d''))) ?st)"
  have a: "fst (get_api_stats stub_builtins memory_config no_exception no_rows 2692000
                  read_headers (Some ''30d'') ?st) = Inr ?data"
    by (simp add: get_api_stats_def requireReadKey_def read_headers_def CLIENT_KEY_def
          or_default_def memory_config_def case_prod_beta)
  have b: "\<not> num_ge (sec 100) (sec (2692000 - 2592000))" by simp
  have c: "(sec 100, Fin 5) \<notin> set (series Honey ?data)" by (rule retention_on_read[OF a b])
  show ?thesis by (intro conjI a b c)
qed

section \<open>Ingest: rejection and success\<close>










section \<open>An ingest stamped before the retention window\<close>











section \<open>Authorization of reads\<close>

lemma CLIENT_KEY_changed:
  "secret_changed cfg \<Longrightarrow> env_CLIENT_KEY cfg = Some (CLIENT_KEY cfg) \<and> CLIENT_KEY cfg \<noteq> [] \<and>
     CLIENT_KEY cfg \<noteq> ''replace-this-client-key''"
  by (auto simp: secret_changed_def CLIENT_KEY_def or_default_def split: option.splits)

lemma CLIENT_KEY_default:
  "\<not> secret_changed cfg \<Longrightarrow> CLIENT_KEY cfg = ''replace-this-client-key''"
  by (auto simp: secret_changed_def CLIENT_KEY_def or_default_def split: option.splits)

lemma read_key_absent:
  "absent (x_user_key h) \<Longrightarrow> requireReadKey cfg h = Inl (Reject 400 ''x-user-key required'')"
  by (simp add: absent_def requireReadKey_def split: option.splits)

lemma read_key_enforced:
  assumes "x_user_key h = Some k" "k \<noteq> []" "secret_changed cfg"
  shows "requireReadKey cfg h =
          (if x_client_key h = env_CLIENT_KEY cfg then Inr k else Inl (Reject 401 ''unauthorized''))"
proof -
  note c = CLIENT_KEY_changed[OF assms(3)]
  show ?thesis using assms(1,2) c by (simp add: requireReadKey_def)
qed

lemma read_key_open:
  assumes "x_user_key h = Some k" "k \<noteq> []" "\<not> secret_changed cfg"
  shows "requireReadKey cfg h = Inr k"
  using assms CLIENT_KEY_default[OF assms(3)] by (simp add: requireReadKey_def)

lemma read_key_v2_absent:
  "absent (x_user_key h) \<Longrightarrow> absent q \<Longrightarrow>
     requireReadKey_v2 cfg h q = Inl (Reject 400 ''x-user-key required'')"
  by (cases q) (simp_all add: absent_def requireReadKey_v2_def Let_def split: option.splits)

lemma read_key_v2_admits:
  assumes "requireReadKey_v2 cfg h q = Inr k"
  shows "x_client_key h = Some (CLIENT_KEY_v2 cfg) \<and> k \<noteq> [] \<and>
      (if absent (x_user_key h) then q = Some k else x_user_key h = Some k)"
proof (cases "absent (x_user_key h)")
  case True
  with assms show ?thesis
    by (cases q) (simp_all add: requireReadKey_v2_def Let_def split: if_splits)
next
  case False
  then obtain u where u: "x_user_key h = Some u" "u \<noteq> []" by (cases "x_user_key h") (auto simp: absent_def)
  with assms False show ?thesis
    by (simp add: requireReadKey_v2_def Let_def split: if_splits)
qed

lemma read_key_v2_rejects:
  assumes "\<not> (absent (x_user_key h) \<and> absent q)" "x_client_key h \<noteq> Some (CLIENT_KEY_v2 cfg)"
  shows "requireReadKey_v2 cfg h q = Inl (Reject 401 ''unauthorized: invalid x-client-key'')"
proof (cases "absent (x_user_key h)")
  case True
  with assms(1) obtain u where "q = Some u" "u \<noteq> []" by (cases q) (auto simp: absent_def)
  with True assms(2) show ?thesis by (simp add: requireReadKey_v2_def Let_def)
next
  case False
  then obtain u where u: "x_user_key h = Some u" "u \<noteq> []" by (cases "x_user_key h") (auto simp: absent_def)
  with assms(2) False show ?thesis by (simp add: requireReadKey_v2_def Let_def)
qed

text \<open>
  C7, as amended. In the server whose \<^verbatim>\<open>requireReadKey\<close> has the placeholder test (lines
  729 to 742; the servers of the unnamed parts have the same text): a request without
  \<^verbatim>\<open>x-user-key\<close> is answered 400; with a user key, \<^verbatim>\<open>x-client-key\<close> is compared
  with the configured secret, and a mismatch answered 401, exactly when the secret is set and
  differs from the placeholder; when it is unset or the placeholder the request is admitted
  whatever \<^verbatim>\<open>x-client-key\<close> holds. A rejection of the middleware is the answer of
  \<^verbatim>\<open>GET /api/stats\<close>. In the server of lines 211 to 226 the user key is read from the
  header or, failing that, from the query; a request without either is answered 400, and any
  other request is admitted only when \<^verbatim>\<open>x-client-key\<close> equals \<^verbatim>\<open>CLIENT_KEY\<close>,
  whose default there is a fixed key, and is answered 401 otherwise.
\<close>

theorem read_key_policy:
  "(absent (x_user_key h) \<longrightarrow> requireReadKey cfg h = Inl (Reject 400 ''x-user-key required'')) \<and>
   (x_user_key h = Some k \<and> k \<noteq> [] \<and> secret_changed cfg \<longrightarrow>
      requireReadKey cfg h =
        (if x_client_key h = env_CLIENT_KEY cfg then Inr k else Inl (Reject 401 ''unauthorized''))) \<and>
   (x_user_key h = Some k \<and> k \<noteq> [] \<and> \<not> secret_changed cfg \<longrightarrow> requireReadKey cfg h = Inr k) \<and>
   (requireReadKey cfg h = Inl r \<longrightarrow> get_api_stats env cfg throws d now h period st = (Inl r, st)) \<and>
   (absent (x_user_key h) \<and> absent q \<longrightarrow>
      requireReadKey_v2 cfg h q = Inl (Reject 400 ''x-user-key required'')) \<and>
   (requireReadKey_v2 cfg h q = Inr k \<longrightarrow>
      x_client_key h = Some (CLIENT_KEY_v2 cfg) \<and> k \<noteq> [] \<and>
      (if absent (x_user_key h) then q = Some k else x_user_key h = Some k)) \<and>
   (\<not> (absent (x_user_key h) \<and> absent q) \<and> x_client_key h \<noteq> Some (CLIENT_KEY_v2 cfg) \<longrightarrow>
      requireReadKey_v2 cfg h q = Inl (Reject 401 ''unauthorized: invalid x-client-key''))"
proof -
  have g: "requireReadKey cfg h = Inl r \<longrightarrow>
             get_api_stats env cfg throws d now h period st = (Inl r, st)"
    by (simp add: get_api_stats_def)
  show ?thesis
    using read_key_absent[of h cfg] read_key_enforced[of h k cfg] read_key_open[of h k cfg] g
      read_key_v2_absent[of h q cfg] read_key_v2_admits[of cfg h q k] read_key_v2_rejects[of h q cfg]
    by blast
qed


theorem read_key_policy_witness:
  "requireReadKey memory_config (read_headers\<lparr>x_user_key := None\<rparr>)
     = Inl (Reject 400 ''x-user-key required'') \<and>
   requireReadKey (memory_config\<lparr>env_CLIENT_KEY := Some ''s3cret''\<rparr>) read_headers
     = Inl (Reject 401 ''unauthorized'') \<and>
   requireReadKey (memory_config\<lparr>env_CLIENT_KEY := Some ''s3cret''\<rparr>)
       (read_headers\<lparr>x_client_key := Some ''s3cret''\<rparr>) = Inr ''u'' \<and>
   requireReadKey memory_config (read_headers\<lparr>x_client_key := Some ''wrong''\<rparr>) = Inr ''u''"
proof -
  let ?secret = "memory_config\<lparr>env_CLIENT_KEY := Some ''s3cret''\<rparr>"
  have c: "secret_changed ?secret" "\<not> secret_changed memory_config"
    by (simp_all add: secret_changed_def memory_config_def)
  have 1: "requireReadKey memory_config (read_headers\<lparr>x_user_key := None\<rparr>)
             = Inl (Reject 400 ''x-user-key required'')"
    using read_key_policy[of "read_headers\<lparr>x_user_key := None\<rparr>" memory_config]
    by (simp add: absent_def)
  have 2: "requireReadKey ?secret read_headers = Inl (Reject 401 ''unauthorized'')"
    using read_key_policy[of read_headers ?secret "''u''"] c(1)
    by (simp add: read_headers_def)
  have 3: "requireReadKey ?secret (read_headers\<lparr>x_client_key := Some ''s3cret''\<rparr>) = Inr ''u''"
    using read_key_policy[of "read_headers\<lparr>x_client_key := Some ''s3cret''\<rparr>" ?secret "''u''"] c(1)
    by (simp add: read_headers_def)
  have 4: "requireReadKey memory_config (read_headers\<lparr>x_client_key := Some ''wrong''\<rparr>) = Inr ''u''"
    using read_key_policy[of "read_headers\<lparr>x_client_key := Some ''wrong''\<rparr>" memory_config "''u''"] c(2)
    by (simp add: read_headers_def)
  show ?thesis by (intro conjI 1 2 3 4)
qed

text \<open>
  The claim as stated, for every read request, fails on the server of lines 211 to 226: with
  the secret unset, or set to the placeholder, a request with a user key and no client key is
  answered 401 there, where the other server admits it; and a request whose user key comes
  in the query, without the identity header, is admitted.
\<close>

theorem read_key_v2_unconditional:
  "requireReadKey memory_config read_headers = Inr ''u'' \<and>
   requireReadKey_v2 memory_config read_headers None
     = Inl (Reject 401 ''unauthorized: invalid x-client-key'') \<and>
   requireReadKey_v2 (memory_config\<lparr>env_CLIENT_KEY := Some ''replace-this-client-key''\<rparr>)
       read_headers None = Inl (Reject 401 ''unauthorized: invalid x-client-key'') \<and>
   requireReadKey_v2 memory_config
       \<lparr>x_user_key = None, x_client_key = Some ''Xjcxjzx3123Zccxvjfdsfd'', x_api_key = None\<rparr>
       (Some ''u'') = Inr ''u''"
  by (simp add: requireReadKey_def requireReadKey_v2_def read_headers_def memory_config_def
        CLIENT_KEY_def CLIENT_KEY_v2_def or_default_def absent_def)

section \<open>The command queue\<close>













section \<open>The leaderboard\<close>

lemma leaderboard_Inr:
  assumes "leaderboard cfg throws d now limit_q = Inr L"
  shows "L = sort_key (\<lambda>e. - ld_hourly_rate e)
               (map (leader_of d now) (select_leaders d (now - 604800) (leaderboard_limit limit_q)))"
    and "0 \<le> leaderboard_limit limit_q"
  using assms by (auto simp: leaderboard_def Let_def split: if_splits)

lemma leaderboard_limit_cases:
  "leaderboard_limit limit_q \<le> 100"
  "parseInt limit_q = None \<Longrightarrow> leaderboard_limit limit_q = 25"
  "parseInt limit_q = Some 0 \<Longrightarrow> leaderboard_limit limit_q = 25"
  "parseInt limit_q = Some n \<Longrightarrow> n \<noteq> 0 \<Longrightarrow> leaderboard_limit limit_q = min n 100"
  by (auto simp: leaderboard_limit_def split: option.splits)

lemma select_leaders_props:
  "set (select_leaders d c n) \<subseteq> {u \<in> set (users_v2 d). c < lb_last_activity u}"
  "length (select_leaders d c n) \<le> nat n"
  "sorted (map (\<lambda>u. - lb_total_honey u) (select_leaders d c n))"
proof -
  show "set (select_leaders d c n) \<subseteq> {u \<in> set (users_v2 d). c < lb_last_activity u}"
    unfolding select_leaders_def by (auto dest: in_set_takeD)
  show "length (select_leaders d c n) \<le> nat n" by (simp add: select_leaders_def)
  have "sorted (map (\<lambda>u. - lb_total_honey u)
           (sort_key (\<lambda>u. - lb_total_honey u) (filter (\<lambda>u. c < lb_last_activity u) (users_v2 d))))"
    by (rule sorted_sort_key)
  then show "sorted (map (\<lambda>u. - lb_total_honey u) (select_leaders d c n))"
    unfolding select_leaders_def take_map[symmetric] by (rule sorted_wrt_take)
qed

text \<open>
  C8, as amended. A successful answer of \<^verbatim>\<open>GET /api/leaderboard\<close> holds only users whose
  last activity is after \<open>now - 604800\<close>. They are the first \<open>limit\<close> users in
  descending order of \<^verbatim>\<open>total_honey\<close>, where \<open>limit\<close> is the parsed query value
  capped at 100, or 25 when the value is missing, not a number or zero; in a successful answer
  \<open>limit\<close> lies between 1 and 100 and bounds the number of entries. The answer lists these
  users in descending order of their hourly rate, the honey of the last 24 hours divided by
  24, not of \<^verbatim>\<open>total_honey\<close>.
\<close>

theorem leaderboard_contract:
  assumes "leaderboard cfg throws d now limit_q = Inr L"
  shows "(\<forall>e \<in> set L. now - 604800 < ld_last_activity e) \<and>
         length L \<le> nat (leaderboard_limit limit_q) \<and>
         1 \<le> leaderboard_limit limit_q \<and> leaderboard_limit limit_q \<le> 100 \<and>
         leaderboard_limit limit_q =
           (case parseInt limit_q of None \<Rightarrow> 25 | Some n \<Rightarrow> if n = 0 then 25 else min n 100) \<and>
         set (map ld_user_key L) =
           set (map lb_user_key (select_leaders d (now - 604800) (leaderboard_limit limit_q))) \<and>
         length L = length (select_leaders d (now - 604800) (leaderboard_limit limit_q)) \<and>
         sorted (map (\<lambda>u. - lb_total_honey u)
                   (select_leaders d (now - 604800) (leaderboard_limit limit_q))) \<and>
         sorted (map (\<lambda>e. - ld_hourly_rate e) L) \<and>
         (\<forall>e \<in> set L. ld_hourly_rate e = daily_honey d (ld_user_key e) (now - 86400) / 24)"
proof -
  let ?rows = "select_leaders d (now - 604800) (leaderboard_limit limit_q)"
  note L = leaderboard_Inr[OF assms]
  have setL: "set L = leader_of d now ` set ?rows" unfolding L(1) by simp
  have a: "\<forall>e \<in> set L. now - 604800 < ld_last_activity e"
    using select_leaders_props(1)[of d "now - 604800" "leaderboard_limit limit_q"]
    unfolding setL by (auto simp: leader_of_def Let_def)
  have len: "length L = length ?rows" unfolding L(1) by simp
  have b: "length L \<le> nat (leaderboard_limit limit_q)"
    unfolding len by (rule select_leaders_props(2))
  have nz: "leaderboard_limit limit_q \<noteq> 0"
    by (auto simp: leaderboard_limit_def split: option.splits)
  have c: "1 \<le> leaderboard_limit limit_q" using L(2) nz by simp
  have d: "leaderboard_limit limit_q =
           (case parseInt limit_q of None \<Rightarrow> 25 | Some n \<Rightarrow> if n = 0 then 25 else min n 100)"
    by (auto simp: leaderboard_limit_def split: option.splits)
  have e: "set (map ld_user_key L) = set (map lb_user_key ?rows)"
    unfolding set_map setL by (auto simp: leader_of_def Let_def image_image)
  have f: "sorted (map (\<lambda>e. - ld_hourly_rate e) L)" unfolding L(1) by (rule sorted_sort_key)
  have g: "\<forall>e \<in> set L. ld_hourly_rate e = daily_honey d (ld_user_key e) (now - 86400) / 24"
    unfolding setL by (auto simp: leader_of_def Let_def)
  show ?thesis
    using a b c leaderboard_limit_cases(1)[of limit_q] d e len
      select_leaders_props(3)[of d "now - 604800" "leaderboard_limit limit_q"] f g
    by blast
qed

lemma parseInt_1: "parseInt (Some ''1'') = Some 1"
  by (simp add: parseInt_def is_space_def is_digit_def Number_digits_def digit_val_def Let_def)

lemma two_users_rows:
  "map (leader_of two_users 1000) (select_leaders two_users (1000 - 86400 * 7) 25) = [leader_A, leader_B]"
  "map (leader_of two_users 1000) (select_leaders two_users (1000 - 86400 * 7) 1) = [leader_A]"
  by (simp_all add: select_leaders_def two_users_def leader_of_def daily_honey_def Let_def
        leader_A_def leader_B_def)

lemma two_users_quiet:
  "\<not> list_ex (\<lambda>u. no_exception_v2 (SelectDaily (lb_user_key u) x)) rows"
  by (simp add: no_exception_v2_def list_ex_iff)

text \<open>
  The claim as stated, that the answer is ordered by the cumulative counter, fails: of two
  active users, the one with the smaller total and the larger rate comes first.
\<close>

theorem leaderboard_by_rate:
  "leaderboard db_config no_exception_v2 two_users 1000 None = Inr [leader_B, leader_A] \<and>
   map ld_total_honey [leader_B, leader_A] = [50, 100]"
proof -
  have l: "leaderboard_limit None = 25" by (simp add: leaderboard_limit_def parseInt_def)
  have s: "sort_key (\<lambda>e. - ld_hourly_rate e) [leader_A, leader_B] = [leader_B, leader_A]"
    by (simp add: leader_A_def leader_B_def)
  have "leaderboard db_config no_exception_v2 two_users 1000 None = Inr [leader_B, leader_A]"
    unfolding leaderboard_def Let_def l two_users_rows s
    by (simp add: db_config_def two_users_quiet) (simp add: no_exception_v2_def)
  then show ?thesis by (simp add: leader_A_def leader_B_def)
qed

theorem leaderboard_contract_witness:
  "leaderboard db_config no_exception_v2 two_users 1000 (Some ''1'') = Inr [leader_A] \<and>
   leaderboard_limit (Some ''1'') = 1 \<and>
   length [leader_A] \<le> nat (leaderboard_limit (Some ''1'')) \<and>
   1000 - 604800 < ld_last_activity leader_A"
proof -
  have l: "leaderboard_limit (Some ''1'') = 1" by (simp add: leaderboard_limit_def parseInt_1)
  have s: "sort_key (\<lambda>e. - ld_hourly_rate e) [leader_A] = [leader_A]" by simp
  have r: "leaderboard db_config no_exception_v2 two_users 1000 (Some ''1'') = Inr [leader_A]"
    unfolding leaderboard_def Let_def l two_users_rows s
    by (simp add: db_config_def two_users_quiet) (simp add: no_exception_v2_def)
  from leaderboard_contract[OF r] r l show ?thesis by simp
qed

section \<open>The backpack percentage\<close>

lemma clampPercent_idem [simp]: "clampPercent (clampPercent x) = clampPercent x"
  by (cases x) simp_all

lemma percent_for_clamped [simp]: "clampPercent (percent_for w c) = percent_for w c"
  by (simp add: percent_for_def)



lemma known_capacity_Nil [simp]: "known_capacity k [] = Fin 0"
  by (simp add: known_capacity_def)















lemma capacity_map_snoc: "capacity_map (cs @ [e]) = (capacity_map cs)(smp_t e \<mapsto> smp_v e)"
  by (simp add: capacity_map_def)







end
